theory Spec2Isabelle
  imports Main
begin

section \<open>Tables\<close>

text \<open>
  The three migrations under \<^verbatim>\<open>supabase/migrations\<close> define two tables that matter for
  authorization, \<^verbatim>\<open>public.stories\<close> and \<^verbatim>\<open>public.story_members\<close>, their row-level
  security policies, two \<^verbatim>\<open>SECURITY DEFINER\<close> helper functions and one trigger.
  A \<^verbatim>\<open>UUID\<close> is an opaque key; \<^verbatim>\<open>auth.uid()\<close> is the caller's key.
\<close>

type_synonym uuid = nat

text \<open>\<^verbatim>\<open>role TEXT NOT NULL DEFAULT 'member' CHECK (role IN ('owner', 'member'))\<close>\<close>

datatype role = Owner | Member

text \<open>
  \<^verbatim>\<open>CREATE TABLE public.stories\<close>. The primary key column \<^verbatim>\<open>id\<close> is the field \<open>s_id\<close>;
  \<^verbatim>\<open>updated_at\<close>, which no policy and no query reads, is left out.
\<close>

record story =
  s_id :: uuid
  title :: string
  description :: "string option"
  cover_image_url :: "string option"
  is_public :: bool
  created_by :: uuid
  created_at :: nat

text \<open>
  \<^verbatim>\<open>CREATE TABLE public.story_members\<close>, with its surrogate key \<^verbatim>\<open>id\<close> and its
  \<^verbatim>\<open>created_at\<close> left out: rows are identified by \<^verbatim>\<open>(story_id, user_id)\<close> everywhere.
\<close>

record story_member =
  story_id :: uuid
  user_id :: uuid
  role :: role

record db =
  stories :: "story list"
  story_members :: "story_member list"

definition empty_db :: db where
  "empty_db = \<lparr>stories = [], story_members = []\<rparr>"

text \<open>
  What a statement can fail with: a row-level security violation, a unique violation
  (primary key of \<^verbatim>\<open>stories\<close>, \<^verbatim>\<open>UNIQUE(story_id, user_id)\<close> of \<^verbatim>\<open>story_members\<close>),
  a foreign key violation.
\<close>

datatype error = Forbidden | Conflict | ForeignKeyViolation

section \<open>Subqueries and security definer helpers\<close>

text \<open>
  \<^verbatim>\<open>EXISTS (SELECT 1 FROM public.story_members sm WHERE sm.story_id = .. AND sm.user_id = ..)\<close>
  over the rows \<open>ms\<close> that the subquery can see.
\<close>

definition exists_membership :: "story_member list \<Rightarrow> uuid \<Rightarrow> uuid \<Rightarrow> bool" where
  "exists_membership ms sid uid = list_ex (\<lambda>sm. story_id sm = sid \<and> user_id sm = uid) ms"

text \<open>The same with \<^verbatim>\<open>AND sm.role = 'owner'\<close>.\<close>

definition exists_owner_membership :: "story_member list \<Rightarrow> uuid \<Rightarrow> uuid \<Rightarrow> bool" where
  "exists_owner_membership ms sid uid =
     list_ex (\<lambda>sm. story_id sm = sid \<and> user_id sm = uid \<and> role sm = Owner) ms"

text \<open>\<^verbatim>\<open>id IN (SELECT story_id FROM public.story_members WHERE user_id = auth.uid())\<close>\<close>

definition id_in_own_story_ids :: "story_member list \<Rightarrow> uuid \<Rightarrow> uuid \<Rightarrow> bool" where
  "id_in_own_story_ids ms sid uid = (sid \<in> set (map story_id (filter (\<lambda>m. user_id m = uid) ms)))"

text \<open>
  \<^verbatim>\<open>public.is_story_creator(_story_id, _user_id)\<close> and
  \<^verbatim>\<open>public.is_story_owner(_story_id, _user_id)\<close> are \<^verbatim>\<open>SECURITY DEFINER\<close>: they read the
  tables themselves, not the caller's view of them.
\<close>

definition is_story_creator :: "db \<Rightarrow> uuid \<Rightarrow> uuid \<Rightarrow> bool" where
  "is_story_creator d sid uid = list_ex (\<lambda>s. s_id s = sid \<and> created_by s = uid) (stories d)"

definition is_story_owner :: "db \<Rightarrow> uuid \<Rightarrow> uuid \<Rightarrow> bool" where
  "is_story_owner d sid uid = exists_owner_membership (story_members d) sid uid"

section \<open>Policies\<close>

datatype cmd = SELECT | INSERT | UPDATE | DELETE

text \<open>
  A policy has a name, the command it is \<^verbatim>\<open>FOR\<close>, whether it is permissive (the default)
  or \<^verbatim>\<open>AS RESTRICTIVE\<close>, and one expression (\<^verbatim>\<open>USING\<close>, or \<^verbatim>\<open>WITH CHECK\<close> for
  \<^verbatim>\<open>INSERT\<close>). The expression is evaluated for the caller \<open>uid\<close> on a row; a security
  definer helper inside it reads the database \<open>d\<close>, a plain subquery on
  \<^verbatim>\<open>story_members\<close> reads the rows \<open>vis\<close> that the caller's own \<^verbatim>\<open>SELECT\<close> on that table
  returns. Every policy of the migrations is \<^verbatim>\<open>TO authenticated\<close>.
\<close>

record 'r policy =
  polname :: string
  polcmd :: cmd
  permissive :: bool
  qual :: "uuid \<Rightarrow> db \<Rightarrow> story_member list \<Rightarrow> 'r \<Rightarrow> bool"

subsection \<open>First migration (20260115205311)\<close>

definition users_can_view_memberships_for_their_stories :: "story_member policy" where
  "users_can_view_memberships_for_their_stories =
     \<lparr>polname = ''Users can view memberships for their stories'', polcmd = SELECT,
      permissive = True,
      qual = (\<lambda>uid d vis r. user_id r = uid \<or> exists_membership vis (story_id r) uid)\<rparr>"

definition story_owners_can_manage_members :: "story_member policy" where
  "story_owners_can_manage_members =
     \<lparr>polname = ''Story owners can manage members'', polcmd = INSERT, permissive = True,
      qual = (\<lambda>uid d vis r. exists_owner_membership vis (story_id r) uid
                \<or> (user_id r = uid \<and> role r = Owner))\<rparr>"

definition story_owners_can_remove_members :: "story_member policy" where
  "story_owners_can_remove_members =
     \<lparr>polname = ''Story owners can remove members'', polcmd = DELETE, permissive = True,
      qual = (\<lambda>uid d vis r. exists_owner_membership vis (story_id r) uid)\<rparr>"

definition users_can_view_their_stories_or_public_stories :: "story policy" where
  "users_can_view_their_stories_or_public_stories =
     \<lparr>polname = ''Users can view their stories or public stories'', polcmd = SELECT,
      permissive = True,
      qual = (\<lambda>uid d vis r. is_public r = True \<or> exists_membership vis (s_id r) uid)\<rparr>"

definition authenticated_users_can_create_stories :: "story policy" where
  "authenticated_users_can_create_stories =
     \<lparr>polname = ''Authenticated users can create stories'', polcmd = INSERT,
      permissive = True,
      qual = (\<lambda>uid d vis r. uid = created_by r)\<rparr>"

text \<open>The second migration drops these two and creates them again with the same text.\<close>

definition story_owners_can_update_their_stories :: "story policy" where
  "story_owners_can_update_their_stories =
     \<lparr>polname = ''Story owners can update their stories'', polcmd = UPDATE, permissive = True,
      qual = (\<lambda>uid d vis r. exists_owner_membership vis (s_id r) uid)\<rparr>"

definition story_owners_can_delete_their_stories :: "story policy" where
  "story_owners_can_delete_their_stories =
     \<lparr>polname = ''Story owners can delete their stories'', polcmd = DELETE, permissive = True,
      qual = (\<lambda>uid d vis r. exists_owner_membership vis (s_id r) uid)\<rparr>"

subsection \<open>Second migration (20260119200546)\<close>

text \<open>The third migration drops this one and creates it again with the same text.\<close>

definition users_can_view_their_own_memberships :: "story_member policy" where
  "users_can_view_their_own_memberships =
     \<lparr>polname = ''Users can view their own memberships'', polcmd = SELECT, permissive = True,
      qual = (\<lambda>uid d vis r. uid = user_id r)\<rparr>"

definition story_owners_can_insert_members :: "story_member policy" where
  "story_owners_can_insert_members =
     \<lparr>polname = ''Story owners can insert members'', polcmd = INSERT, permissive = True,
      qual = (\<lambda>uid d vis r.
                (user_id r = uid \<and> role r = Owner \<and> is_story_creator d (story_id r) uid)
                \<or> is_story_owner d (story_id r) uid)\<rparr>"

definition story_owners_can_delete_members :: "story_member policy" where
  "story_owners_can_delete_members =
     \<lparr>polname = ''Story owners can delete members'', polcmd = DELETE, permissive = True,
      qual = (\<lambda>uid d vis r. is_story_owner d (story_id r) uid)\<rparr>"

subsection \<open>Third migration (20260119203607)\<close>

definition creators_can_insert_their_owner_membership :: "story_member policy" where
  "creators_can_insert_their_owner_membership =
     \<lparr>polname = ''Creators can insert their owner membership'', polcmd = INSERT,
      permissive = True,
      qual = (\<lambda>uid d vis r.
                user_id r = uid \<and> role r = Owner \<and> is_story_creator d (story_id r) uid)\<rparr>"

definition users_can_view_public_stories_or_their_stories :: "story policy" where
  "users_can_view_public_stories_or_their_stories =
     \<lparr>polname = ''Users can view public stories or their stories'', polcmd = SELECT,
      permissive = True,
      qual = (\<lambda>uid d vis r. is_public r = True \<or> id_in_own_story_ids vis (s_id r) uid)\<rparr>"

definition members_can_target_their_stories_base :: "story policy" where
  "members_can_target_their_stories_base =
     \<lparr>polname = ''Members can target their stories (base)'', polcmd = UPDATE,
      permissive = True,
      qual = (\<lambda>uid d vis r. is_public r = True \<or> id_in_own_story_ids vis (s_id r) uid)\<rparr>"

definition members_can_target_their_stories_for_delete_base :: "story policy" where
  "members_can_target_their_stories_for_delete_base =
     \<lparr>polname = ''Members can target their stories for delete (base)'', polcmd = DELETE,
      permissive = True,
      qual = (\<lambda>uid d vis r. is_public r = True \<or> id_in_own_story_ids vis (s_id r) uid)\<rparr>"

definition only_owners_can_update_stories :: "story policy" where
  "only_owners_can_update_stories =
     \<lparr>polname = ''Only owners can update stories'', polcmd = UPDATE, permissive = False,
      qual = (\<lambda>uid d vis r. exists_owner_membership vis (s_id r) uid)\<rparr>"

definition only_owners_can_delete_stories :: "story policy" where
  "only_owners_can_delete_stories =
     \<lparr>polname = ''Only owners can delete stories'', polcmd = DELETE, permissive = False,
      qual = (\<lambda>uid d vis r. exists_owner_membership vis (s_id r) uid)\<rparr>"

section \<open>The membership table and the trigger function\<close>

text \<open>
  A plain \<^verbatim>\<open>INSERT INTO public.story_members\<close>, as the table's constraints decide it:
  \<^verbatim>\<open>UNIQUE(story_id, user_id)\<close> (and the index \<^verbatim>\<open>story_members_story_id_user_id_uniq\<close>),
  then the foreign key \<^verbatim>\<open>story_id REFERENCES public.stories(id)\<close>.
\<close>

definition insert_story_member :: "db \<Rightarrow> story_member \<Rightarrow> error + db" where
  "insert_story_member d m =
     (if exists_membership (story_members d) (story_id m) (user_id m) then Inl Conflict
      else if \<not> list_ex (\<lambda>s. s_id s = story_id m) (stories d) then Inl ForeignKeyViolation
      else Inr (d\<lparr>story_members := story_members d @ [m]\<rparr>))"

text \<open>\<^verbatim>\<open>INSERT ... ON CONFLICT (story_id, user_id) DO NOTHING\<close>\<close>

definition insert_story_member_on_conflict_do_nothing :: "db \<Rightarrow> story_member \<Rightarrow> error + db" where
  "insert_story_member_on_conflict_do_nothing d m =
     (case insert_story_member d m of
        Inl Conflict \<Rightarrow> Inr d
      | Inl e \<Rightarrow> Inl e
      | Inr d' \<Rightarrow> Inr d')"

text \<open>
  \<^verbatim>\<open>public.handle_new_story_owner_membership()\<close>, the trigger function, on the new row
  \<^verbatim>\<open>NEW\<close>. It is \<^verbatim>\<open>SECURITY DEFINER\<close>: no policy is consulted.
\<close>

definition handle_new_story_owner_membership :: "db \<Rightarrow> story \<Rightarrow> error + db" where
  "handle_new_story_owner_membership d NEW =
     insert_story_member_on_conflict_do_nothing d
       \<lparr>story_id = s_id NEW, user_id = created_by NEW, role = Owner\<rparr>"

section \<open>The catalogue and the migrations\<close>

text \<open>
  The catalogue holds the policies of the two tables and the \<^verbatim>\<open>AFTER INSERT ... FOR EACH ROW\<close>
  triggers of \<^verbatim>\<open>stories\<close>. Each migration is the sequence of its \<^verbatim>\<open>DROP ... IF EXISTS\<close>
  and \<^verbatim>\<open>CREATE\<close> statements, in the order of the file.
\<close>

record catalog =
  story_policies :: "story policy list"
  member_policies :: "story_member policy list"
  story_insert_triggers :: "(string \<times> (db \<Rightarrow> story \<Rightarrow> error + db)) list"

definition empty_catalog :: catalog where
  "empty_catalog = \<lparr>story_policies = [], member_policies = [], story_insert_triggers = []\<rparr>"

definition drop_policy_if_exists :: "string \<Rightarrow> 'r policy list \<Rightarrow> 'r policy list" where
  "drop_policy_if_exists n ps = filter (\<lambda>p. polname p \<noteq> n) ps"

definition create_policy :: "'r policy \<Rightarrow> 'r policy list \<Rightarrow> 'r policy list" where
  "create_policy p ps = ps @ [p]"

definition migration_20260115205311 :: "catalog \<Rightarrow> catalog" where
  "migration_20260115205311 c =
     c\<lparr>member_policies :=
         (create_policy story_owners_can_remove_members \<circ>
          create_policy story_owners_can_manage_members \<circ>
          create_policy users_can_view_memberships_for_their_stories) (member_policies c),
       story_policies :=
         (create_policy story_owners_can_delete_their_stories \<circ>
          create_policy story_owners_can_update_their_stories \<circ>
          create_policy authenticated_users_can_create_stories \<circ>
          create_policy users_can_view_their_stories_or_public_stories) (story_policies c)\<rparr>"

definition migration_20260119200546 :: "catalog \<Rightarrow> catalog" where
  "migration_20260119200546 c =
     c\<lparr>member_policies :=
         (create_policy story_owners_can_delete_members \<circ>
          create_policy story_owners_can_insert_members \<circ>
          create_policy users_can_view_their_own_memberships \<circ>
          drop_policy_if_exists ''Story owners can remove members'' \<circ>
          drop_policy_if_exists ''Story owners can manage members'' \<circ>
          drop_policy_if_exists ''Users can view memberships for their stories'')
           (member_policies c),
       story_policies :=
         (create_policy story_owners_can_delete_their_stories \<circ>
          create_policy story_owners_can_update_their_stories \<circ>
          drop_policy_if_exists ''Story owners can delete their stories'' \<circ>
          drop_policy_if_exists ''Story owners can update their stories'') (story_policies c)\<rparr>"

definition migration_20260119203607 :: "catalog \<Rightarrow> catalog" where
  "migration_20260119203607 c =
     c\<lparr>story_insert_triggers :=
         filter (\<lambda>t. fst t \<noteq> ''create_owner_membership_on_story_insert'')
           (story_insert_triggers c)
         @ [(''create_owner_membership_on_story_insert'', handle_new_story_owner_membership)],
       member_policies :=
         (create_policy creators_can_insert_their_owner_membership \<circ>
          create_policy users_can_view_their_own_memberships \<circ>
          drop_policy_if_exists ''Creators can insert their owner membership'' \<circ>
          drop_policy_if_exists ''Story owners can delete members'' \<circ>
          drop_policy_if_exists ''Story owners can remove members'' \<circ>
          drop_policy_if_exists ''Story owners can insert members'' \<circ>
          drop_policy_if_exists ''Story owners can manage members'' \<circ>
          drop_policy_if_exists ''Users can view their own memberships'' \<circ>
          drop_policy_if_exists ''Users can view memberships for their stories'')
           (member_policies c),
       story_policies :=
         (create_policy only_owners_can_delete_stories \<circ>
          create_policy only_owners_can_update_stories \<circ>
          create_policy members_can_target_their_stories_for_delete_base \<circ>
          create_policy members_can_target_their_stories_base \<circ>
          create_policy users_can_view_public_stories_or_their_stories \<circ>
          drop_policy_if_exists ''Only owners can delete stories'' \<circ>
          drop_policy_if_exists ''Only owners can update stories'' \<circ>
          drop_policy_if_exists ''Members can target their stories for delete (base)'' \<circ>
          drop_policy_if_exists ''Members can target their stories (base)'' \<circ>
          drop_policy_if_exists ''Story owners can delete their stories'' \<circ>
          drop_policy_if_exists ''Story owners can update their stories'' \<circ>
          drop_policy_if_exists ''Users can view public stories or their stories'' \<circ>
          drop_policy_if_exists ''Users can view their stories or public stories'')
           (story_policies c)\<rparr>"

text \<open>The schema in force: the three migrations applied in the order of their timestamps.\<close>

definition schema :: catalog where
  "schema = migration_20260119203607 (migration_20260119200546
              (migration_20260115205311 empty_catalog))"

text \<open>The schema as it stood after the second migration.\<close>

definition schema_20260119200546 :: catalog where
  "schema_20260119200546 = migration_20260119200546 (migration_20260115205311 empty_catalog)"

section \<open>Row-level security\<close>

text \<open>
  A row passes for a command when some permissive policy for that command accepts it and
  every restrictive policy for that command accepts it; with no permissive policy no row
  passes.
\<close>

definition rls_passes ::
  "'r policy list \<Rightarrow> cmd \<Rightarrow> uuid \<Rightarrow> db \<Rightarrow> story_member list \<Rightarrow> 'r \<Rightarrow> bool" where
  "rls_passes ps c uid d vis r =
     (list_ex (\<lambda>p. qual p uid d vis r) (filter (\<lambda>p. polcmd p = c \<and> permissive p) ps) \<and>
      list_all (\<lambda>p. qual p uid d vis r) (filter (\<lambda>p. polcmd p = c \<and> \<not> permissive p) ps))"

text \<open>
  The rows of \<^verbatim>\<open>story_members\<close> that a \<^verbatim>\<open>SELECT\<close> of the caller returns, which is what a
  subquery inside a policy reads. From the second migration on the \<^verbatim>\<open>SELECT\<close> policy of
  \<^verbatim>\<open>story_members\<close> contains no subquery, so the rows handed to it here are never read.
  (The \<^verbatim>\<open>SELECT\<close> policy of the first migration queries \<^verbatim>\<open>story_members\<close> from within
  itself, the recursion that the second migration removes; nothing below evaluates it.)
\<close>

definition members_seen :: "catalog \<Rightarrow> uuid \<Rightarrow> db \<Rightarrow> story_member list" where
  "members_seen cat uid d =
     filter (rls_passes (member_policies cat) SELECT uid d (story_members d)) (story_members d)"

definition story_rls :: "catalog \<Rightarrow> cmd \<Rightarrow> uuid \<Rightarrow> db \<Rightarrow> story \<Rightarrow> bool" where
  "story_rls cat c uid d r = rls_passes (story_policies cat) c uid d (members_seen cat uid d) r"

definition member_rls :: "catalog \<Rightarrow> cmd \<Rightarrow> uuid \<Rightarrow> db \<Rightarrow> story_member \<Rightarrow> bool" where
  "member_rls cat c uid d r = rls_passes (member_policies cat) c uid d (members_seen cat uid d) r"

text \<open>The view decision: the \<^verbatim>\<open>SELECT\<close> policies of \<^verbatim>\<open>stories\<close>.\<close>

definition canView :: "catalog \<Rightarrow> uuid \<Rightarrow> db \<Rightarrow> story \<Rightarrow> bool" where
  "canView cat uid d r = story_rls cat SELECT uid d r"

section \<open>Statements of a caller\<close>

text \<open>
  \<^verbatim>\<open>SELECT * FROM public.stories\<close> as the caller \<open>uid\<close>: the rows that pass the
  \<^verbatim>\<open>SELECT\<close> policies.
\<close>

definition select_stories :: "catalog \<Rightarrow> uuid \<Rightarrow> db \<Rightarrow> story list" where
  "select_stories cat uid d = filter (canView cat uid d) (stories d)"

text \<open>The \<^verbatim>\<open>AFTER INSERT ... FOR EACH ROW\<close> triggers run in turn; the first error aborts.\<close>

fun fire_triggers ::
  "(string \<times> (db \<Rightarrow> story \<Rightarrow> error + db)) list \<Rightarrow> db \<Rightarrow> story \<Rightarrow> error + db" where
  "fire_triggers [] d NEW = Inr d"
| "fire_triggers (t # ts) d NEW =
     (case snd t d NEW of Inl e \<Rightarrow> Inl e | Inr d' \<Rightarrow> fire_triggers ts d' NEW)"

text \<open>
  \<^verbatim>\<open>INSERT INTO public.stories\<close> of the row \<open>NEW\<close> as the caller \<open>uid\<close>, without a
  \<^verbatim>\<open>RETURNING\<close> clause or with one (\<open>returning\<close>; \<^verbatim>\<open>.insert(..).select()\<close> of
  \<^verbatim>\<open>CreateStory.tsx\<close> sends the latter). The new row must pass the \<^verbatim>\<open>WITH CHECK\<close> of the
  \<^verbatim>\<open>INSERT\<close> policies and, when it is to be returned, the \<^verbatim>\<open>SELECT\<close> policies as well,
  both before it is stored; then come the primary key, the row and the \<^verbatim>\<open>AFTER INSERT\<close>
  triggers, all in the one transaction of the statement (an error leaves the database as
  it was).
\<close>

definition insert_story :: "catalog \<Rightarrow> bool \<Rightarrow> uuid \<Rightarrow> db \<Rightarrow> story \<Rightarrow> error + db" where
  "insert_story cat returning uid d NEW =
     (if \<not> story_rls cat INSERT uid d NEW then Inl Forbidden
      else if returning \<and> \<not> story_rls cat SELECT uid d NEW then Inl Forbidden
      else if list_ex (\<lambda>s. s_id s = s_id NEW) (stories d) then Inl Conflict
      else fire_triggers (story_insert_triggers cat) (d\<lparr>stories := stories d @ [NEW]\<rparr>) NEW)"

text \<open>
  \<^verbatim>\<open>UPDATE public.stories SET .. WHERE id = X\<close>, setting any of the content columns and the
  visibility flag; a column the statement does not set is \<open>None\<close>.
\<close>

record story_patch =
  set_title :: "string option"
  set_description :: "string option option"
  set_cover_image_url :: "string option option"
  set_is_public :: "bool option"

definition apply_patch :: "story_patch \<Rightarrow> story \<Rightarrow> story" where
  "apply_patch p s =
     s\<lparr>title := (case set_title p of None \<Rightarrow> title s | Some v \<Rightarrow> v),
       description := (case set_description p of None \<Rightarrow> description s | Some v \<Rightarrow> v),
       cover_image_url :=
         (case set_cover_image_url p of None \<Rightarrow> cover_image_url s | Some v \<Rightarrow> v),
       is_public := (case set_is_public p of None \<Rightarrow> is_public s | Some v \<Rightarrow> v)\<rparr>"

text \<open>
  The rows an \<^verbatim>\<open>UPDATE\<close> or \<^verbatim>\<open>DELETE\<close> with a \<^verbatim>\<open>WHERE\<close> clause reaches are those that
  pass the \<^verbatim>\<open>SELECT\<close> policies and the policies of the command; the others are skipped
  without an error. An updated row must pass the same policies again, or the statement
  fails.
\<close>

definition story_targeted :: "catalog \<Rightarrow> cmd \<Rightarrow> uuid \<Rightarrow> db \<Rightarrow> uuid \<Rightarrow> story \<Rightarrow> bool" where
  "story_targeted cat c uid d X s =
     (s_id s = X \<and> story_rls cat SELECT uid d s \<and> story_rls cat c uid d s)"

definition update_story ::
  "catalog \<Rightarrow> uuid \<Rightarrow> db \<Rightarrow> uuid \<Rightarrow> story_patch \<Rightarrow> error + (nat \<times> db)" where
  "update_story cat uid d X p =
     (if list_ex (\<lambda>s. story_targeted cat UPDATE uid d X s \<and>
                       \<not> (story_rls cat SELECT uid d (apply_patch p s) \<and>
                          story_rls cat UPDATE uid d (apply_patch p s))) (stories d)
      then Inl Forbidden
      else Inr (length (filter (story_targeted cat UPDATE uid d X) (stories d)),
                d\<lparr>stories := map (\<lambda>s. if story_targeted cat UPDATE uid d X s
                                       then apply_patch p s else s) (stories d)\<rparr>))"

text \<open>
  \<^verbatim>\<open>DELETE FROM public.stories WHERE id = X\<close>; the memberships of a deleted story go with
  it (\<^verbatim>\<open>story_id ... REFERENCES public.stories(id) ON DELETE CASCADE\<close>).
\<close>

definition delete_story :: "catalog \<Rightarrow> uuid \<Rightarrow> db \<Rightarrow> uuid \<Rightarrow> nat \<times> db" where
  "delete_story cat uid d X =
     (let deleted = filter (story_targeted cat DELETE uid d X) (stories d)
      in (length deleted,
          \<lparr>stories = filter (\<lambda>s. \<not> story_targeted cat DELETE uid d X s) (stories d),
           story_members =
             filter (\<lambda>m. story_id m \<notin> set (map s_id deleted)) (story_members d)\<rparr>))"

text \<open>
  \<^verbatim>\<open>INSERT INTO public.story_members\<close> as the caller: the \<^verbatim>\<open>WITH CHECK\<close> of the
  \<^verbatim>\<open>INSERT\<close> policies, then the table's constraints.
\<close>

definition insert_member :: "catalog \<Rightarrow> uuid \<Rightarrow> db \<Rightarrow> story_member \<Rightarrow> error + db" where
  "insert_member cat uid d m =
     (if \<not> member_rls cat INSERT uid d m then Inl Forbidden else insert_story_member d m)"

text \<open>\<^verbatim>\<open>DELETE FROM public.story_members WHERE story_id = R AND user_id = U\<close>\<close>

definition member_targeted :: "catalog \<Rightarrow> uuid \<Rightarrow> db \<Rightarrow> uuid \<Rightarrow> uuid \<Rightarrow> story_member \<Rightarrow> bool" where
  "member_targeted cat uid d R U m =
     (story_id m = R \<and> user_id m = U \<and>
      member_rls cat SELECT uid d m \<and> member_rls cat DELETE uid d m)"

definition delete_member :: "catalog \<Rightarrow> uuid \<Rightarrow> db \<Rightarrow> uuid \<Rightarrow> uuid \<Rightarrow> nat \<times> db" where
  "delete_member cat uid d R U =
     (length (filter (member_targeted cat uid d R U) (story_members d)),
      d\<lparr>story_members := filter (\<lambda>m. \<not> member_targeted cat uid d R U m) (story_members d)\<rparr>)"

subsection \<open>One statement, its outcome and the database after it\<close>

datatype statement =
    SelectStory uuid
  | InsertStory story
  | InsertStoryReturning story
  | UpdateStory uuid story_patch
  | DeleteStory uuid
  | InsertMember story_member
  | DeleteMember uuid uuid

datatype outcome = Returned "story list" | Inserted | Affected nat | Failed error

fun exec :: "catalog \<Rightarrow> uuid \<Rightarrow> db \<Rightarrow> statement \<Rightarrow> outcome \<times> db" where
  "exec cat uid d (SelectStory X) =
     (Returned (filter (\<lambda>s. s_id s = X) (select_stories cat uid d)), d)"
| "exec cat uid d (InsertStory NEW) =
     (case insert_story cat False uid d NEW of
        Inl e \<Rightarrow> (Failed e, d) | Inr d' \<Rightarrow> (Inserted, d'))"
| "exec cat uid d (InsertStoryReturning NEW) =
     (case insert_story cat True uid d NEW of
        Inl e \<Rightarrow> (Failed e, d) | Inr d' \<Rightarrow> (Returned [NEW], d'))"
| "exec cat uid d (UpdateStory X p) =
     (case update_story cat uid d X p of
        Inl e \<Rightarrow> (Failed e, d) | Inr (n, d') \<Rightarrow> (Affected n, d'))"
| "exec cat uid d (DeleteStory X) =
     (case delete_story cat uid d X of (n, d') \<Rightarrow> (Affected n, d'))"
| "exec cat uid d (InsertMember m) =
     (case insert_member cat uid d m of Inl e \<Rightarrow> (Failed e, d) | Inr d' \<Rightarrow> (Inserted, d'))"
| "exec cat uid d (DeleteMember R U) =
     (case delete_member cat uid d R U of (n, d') \<Rightarrow> (Affected n, d'))"

text \<open>
  The databases that statements of authenticated callers can produce from the empty
  tables, under the schema in force.
\<close>

inductive reachable :: "db \<Rightarrow> bool" where
  reachable_empty: "reachable empty_db"
| reachable_exec: "reachable d \<Longrightarrow> exec schema uid d st = (out, d') \<Longrightarrow> reachable d'"

text \<open>The constraints and the invariant, as checks on a database.\<close>

definition unique_memberships :: "db \<Rightarrow> bool" where
  "unique_memberships d = distinct (map (\<lambda>m. (story_id m, user_id m)) (story_members d))"

definition memberships_reference_stories :: "db \<Rightarrow> bool" where
  "memberships_reference_stories d =
     list_all (\<lambda>m. list_ex (\<lambda>s. s_id s = story_id m) (stories d)) (story_members d)"

definition has_owner :: "db \<Rightarrow> uuid \<Rightarrow> bool" where
  "has_owner d R = list_ex (\<lambda>m. story_id m = R \<and> role m = Owner) (story_members d)"

definition every_story_has_owner :: "db \<Rightarrow> bool" where
  "every_story_has_owner d = list_all (\<lambda>s. has_owner d (s_id s)) (stories d)"

text \<open>The three together.\<close>

definition consistent :: "db \<Rightarrow> bool" where
  "consistent d = (memberships_reference_stories d \<and> unique_memberships d \<and> every_story_has_owner d)"


section \<open>The dashboard\<close>

text \<open>
  \<^verbatim>\<open>fetchStories\<close> of \<^verbatim>\<open>src/pages/Dashboard.tsx\<close> for the signed-in user \<open>uid\<close>, whose
  three queries run under row-level security. \<^verbatim>\<open>memberCounts\<close> is the object built by
  the \<^verbatim>\<open>forEach\<close>; \<^verbatim>\<open>x || k\<close> is \<open>k\<close> when \<open>x\<close> is undefined or \<open>0\<close>. The result pairs
  each story with its \<^verbatim>\<open>member_count\<close>. The branches taken when a query itself fails are
  left out.
\<close>

definition count_member :: "story_member \<Rightarrow> (uuid \<rightharpoonup> nat) \<Rightarrow> (uuid \<rightharpoonup> nat)" where
  "count_member m memberCounts =
     memberCounts(story_id m \<mapsto>
       (case memberCounts (story_id m) of None \<Rightarrow> 0 | Some n \<Rightarrow> n) + 1)"

definition member_count_of :: "(uuid \<rightharpoonup> nat) \<Rightarrow> uuid \<Rightarrow> nat" where
  "member_count_of memberCounts sid =
     (case memberCounts sid of None \<Rightarrow> 1 | Some n \<Rightarrow> if n = 0 then 1 else n)"

definition fetchStories :: "catalog \<Rightarrow> uuid \<Rightarrow> db \<Rightarrow> (story \<times> nat) list" where
  "fetchStories cat uid d =
     (let memberData = filter (\<lambda>m. user_id m = uid) (members_seen cat uid d)
      in if memberData = [] then []
         else
           let storyIds = map story_id memberData;
               storiesData = rev (sort_key created_at
                 (filter (\<lambda>s. s_id s \<in> set storyIds) (select_stories cat uid d)));
               allMembers = filter (\<lambda>m. story_id m \<in> set storyIds) (members_seen cat uid d);
               memberCounts = fold count_member allMembers Map.empty
           in map (\<lambda>story. (story, member_count_of memberCounts (s_id story))) storiesData)"

section \<open>Creating a story from the form\<close>

text \<open>
  \<^verbatim>\<open>handleSubmit\<close> of \<^verbatim>\<open>src/pages/CreateStory.tsx\<close> for the signed-in user \<open>uid\<close>, after
  the upload of the cover (whose address is a column of \<open>NEW\<close>): the insert of the story
  with \<^verbatim>\<open>created_by: user.id\<close>, returning the row; then, under the comment
  \<^verbatim>\<open>// Add creator as owner\<close>, the insert of the owner row for \<^verbatim>\<open>story.id\<close>. Either
  error is thrown to the \<^verbatim>\<open>catch\<close>, which shows \<^verbatim>\<open>Error creating story\<close>; the outcome
  \<open>Inserted\<close> stands for \<^verbatim>\<open>Story created!\<close>.
\<close>

definition handleSubmit :: "catalog \<Rightarrow> uuid \<Rightarrow> db \<Rightarrow> story \<Rightarrow> outcome \<times> db" where
  "handleSubmit cat uid d NEW =
     (case insert_story cat True uid d (NEW\<lparr>created_by := uid\<rparr>) of
        Inl storyError \<Rightarrow> (Failed storyError, d)
      | Inr d' \<Rightarrow>
          (case insert_member cat uid d' \<lparr>story_id = s_id NEW, user_id = uid, role = Owner\<rparr> of
             Inl memberError \<Rightarrow> (Failed memberError, d')
           | Inr d'' \<Rightarrow> (Inserted, d'')))"

section \<open>Two databases that differ in one story\<close>

text \<open>
  The database without the story \<open>X\<close> and, as the foreign key has it, without the
  memberships of \<open>X\<close>.
\<close>

definition without_story :: "uuid \<Rightarrow> db \<Rightarrow> db" where
  "without_story X d =
     \<lparr>stories = filter (\<lambda>s. s_id s \<noteq> X) (stories d),
      story_members = filter (\<lambda>m. story_id m \<noteq> X) (story_members d)\<rparr>"

section \<open>Example data\<close>

text \<open>
  A private story of user \<open>1\<close>, the database right after user \<open>1\<close> has created it, and a
  database in which user \<open>2\<close> is a member of it as well.
\<close>

definition trip :: story where
  "trip = \<lparr>s_id = 1, title = ''Trip'', description = None, cover_image_url = None,
           is_public = False, created_by = 1, created_at = 0\<rparr>"

definition created_db :: db where
  "created_db = \<lparr>stories = [trip],
                 story_members = [\<lparr>story_id = 1, user_id = 1, role = Owner\<rparr>]\<rparr>"

definition trip_db :: db where
  "trip_db = \<lparr>stories = [trip],
              story_members = [\<lparr>story_id = 1, user_id = 1, role = Owner\<rparr>,
                               \<lparr>story_id = 1, user_id = 2, role = Member\<rparr>]\<rparr>"

text \<open>
  A public story of user \<open>1\<close> and the database right after user \<open>1\<close> has created it; a
  story that user \<open>2\<close> offers under the key of the private story.
\<close>

definition album :: story where
  "album = \<lparr>s_id = 2, title = ''Album'', description = None, cover_image_url = None,
            is_public = True, created_by = 1, created_at = 0\<rparr>"

definition album_db :: db where
  "album_db = \<lparr>stories = [album],
               story_members = [\<lparr>story_id = 2, user_id = 1, role = Owner\<rparr>]\<rparr>"


section \<open>The policies in force\<close>

lemma polnames:
  "polname users_can_view_memberships_for_their_stories =
     ''Users can view memberships for their stories''"
  "polname story_owners_can_manage_members = ''Story owners can manage members''"
  "polname story_owners_can_remove_members = ''Story owners can remove members''"
  "polname users_can_view_their_stories_or_public_stories =
     ''Users can view their stories or public stories''"
  "polname authenticated_users_can_create_stories = ''Authenticated users can create stories''"
  "polname story_owners_can_update_their_stories = ''Story owners can update their stories''"
  "polname story_owners_can_delete_their_stories = ''Story owners can delete their stories''"
  "polname users_can_view_their_own_memberships = ''Users can view their own memberships''"
  "polname story_owners_can_insert_members = ''Story owners can insert members''"
  "polname story_owners_can_delete_members = ''Story owners can delete members''"
  by (simp_all add: users_can_view_memberships_for_their_stories_def
      story_owners_can_manage_members_def story_owners_can_remove_members_def
      users_can_view_their_own_memberships_def story_owners_can_insert_members_def
      story_owners_can_delete_members_def users_can_view_their_stories_or_public_stories_def
      authenticated_users_can_create_stories_def story_owners_can_update_their_stories_def
      story_owners_can_delete_their_stories_def)

lemma member_policy_simps:
  "polcmd users_can_view_their_own_memberships = SELECT"
  "permissive users_can_view_their_own_memberships"
  "qual users_can_view_their_own_memberships uid d vis m = (uid = user_id m)"
  "polcmd creators_can_insert_their_owner_membership = INSERT"
  "permissive creators_can_insert_their_owner_membership"
  "qual creators_can_insert_their_owner_membership uid d vis m =
     (user_id m = uid \<and> role m = Owner \<and> is_story_creator d (story_id m) uid)"
  "polcmd story_owners_can_insert_members = INSERT"
  "permissive story_owners_can_insert_members"
  "qual story_owners_can_insert_members uid d vis m =
     ((user_id m = uid \<and> role m = Owner \<and> is_story_creator d (story_id m) uid)
      \<or> is_story_owner d (story_id m) uid)"
  "polcmd story_owners_can_delete_members = DELETE"
  "permissive story_owners_can_delete_members"
  "qual story_owners_can_delete_members uid d vis m = is_story_owner d (story_id m) uid"
  by (simp_all add: users_can_view_their_own_memberships_def
      creators_can_insert_their_owner_membership_def story_owners_can_insert_members_def
      story_owners_can_delete_members_def)

lemma story_policy_simps:
  "polcmd authenticated_users_can_create_stories = INSERT"
  "permissive authenticated_users_can_create_stories"
  "qual authenticated_users_can_create_stories uid d vis r = (uid = created_by r)"
  "polcmd users_can_view_public_stories_or_their_stories = SELECT"
  "permissive users_can_view_public_stories_or_their_stories"
  "qual users_can_view_public_stories_or_their_stories uid d vis r =
     (is_public r \<or> id_in_own_story_ids vis (s_id r) uid)"
  "polcmd members_can_target_their_stories_base = UPDATE"
  "permissive members_can_target_their_stories_base"
  "qual members_can_target_their_stories_base uid d vis r =
     (is_public r \<or> id_in_own_story_ids vis (s_id r) uid)"
  "polcmd members_can_target_their_stories_for_delete_base = DELETE"
  "permissive members_can_target_their_stories_for_delete_base"
  "qual members_can_target_their_stories_for_delete_base uid d vis r =
     (is_public r \<or> id_in_own_story_ids vis (s_id r) uid)"
  "polcmd only_owners_can_update_stories = UPDATE"
  "\<not> permissive only_owners_can_update_stories"
  "qual only_owners_can_update_stories uid d vis r = exists_owner_membership vis (s_id r) uid"
  "polcmd only_owners_can_delete_stories = DELETE"
  "\<not> permissive only_owners_can_delete_stories"
  "qual only_owners_can_delete_stories uid d vis r = exists_owner_membership vis (s_id r) uid"
  by (simp_all add: authenticated_users_can_create_stories_def
      users_can_view_public_stories_or_their_stories_def
      members_can_target_their_stories_base_def
      members_can_target_their_stories_for_delete_base_def
      only_owners_can_update_stories_def only_owners_can_delete_stories_def)

lemmas migration_defs =
  migration_20260119203607_def migration_20260119200546_def migration_20260115205311_def
  empty_catalog_def drop_policy_if_exists_def create_policy_def

lemma schema_member_policies:
  "member_policies schema =
     [users_can_view_their_own_memberships, creators_can_insert_their_owner_membership]"
  by (simp add: schema_def migration_defs polnames)

lemma schema_story_policies:
  "story_policies schema =
     [authenticated_users_can_create_stories,
      users_can_view_public_stories_or_their_stories,
      members_can_target_their_stories_base,
      members_can_target_their_stories_for_delete_base,
      only_owners_can_update_stories,
      only_owners_can_delete_stories]"
  by (simp add: schema_def migration_defs polnames)

lemma schema_story_insert_triggers:
  "story_insert_triggers schema =
     [(''create_owner_membership_on_story_insert'', handle_new_story_owner_membership)]"
  by (simp add: schema_def migration_20260119203607_def migration_20260119200546_def
      migration_20260115205311_def empty_catalog_def)

lemma schema_20260119200546_member_policies:
  "member_policies schema_20260119200546 =
     [users_can_view_their_own_memberships, story_owners_can_insert_members,
      story_owners_can_delete_members]"
  by (simp add: schema_20260119200546_def migration_defs polnames)

lemma members_seen_schema:
  "members_seen schema uid d = filter (\<lambda>m. user_id m = uid) (story_members d)"
  unfolding members_seen_def schema_member_policies rls_passes_def
  by (simp add: member_policy_simps eq_commute)

lemma id_in_own_story_ids_iff:
  "id_in_own_story_ids ms sid uid = exists_membership ms sid uid"
  by (auto simp: id_in_own_story_ids_def exists_membership_def list_ex_iff)

lemma exists_membership_own:
  "exists_membership (filter (\<lambda>m. user_id m = uid) ms) sid uid = exists_membership ms sid uid"
  by (auto simp: exists_membership_def list_ex_iff)

lemma exists_owner_membership_own:
  "exists_owner_membership (filter (\<lambda>m. user_id m = uid) ms) sid uid =
     exists_owner_membership ms sid uid"
  by (auto simp: exists_owner_membership_def list_ex_iff)

lemma story_rls_schema:
  "story_rls schema SELECT uid d r =
     (is_public r \<or> exists_membership (story_members d) (s_id r) uid)"
  "story_rls schema INSERT uid d r = (uid = created_by r)"
  "story_rls schema UPDATE uid d r = is_story_owner d (s_id r) uid"
  "story_rls schema DELETE uid d r = is_story_owner d (s_id r) uid"
  unfolding story_rls_def rls_passes_def schema_story_policies members_seen_schema
  by (auto simp: story_policy_simps id_in_own_story_ids_iff exists_membership_own
      exists_owner_membership_own is_story_owner_def exists_membership_def
      exists_owner_membership_def list_ex_iff)

lemma member_rls_schema:
  "member_rls schema SELECT uid d m = (uid = user_id m)"
  "member_rls schema INSERT uid d m =
     (user_id m = uid \<and> role m = Owner \<and> is_story_creator d (story_id m) uid)"
  "member_rls schema UPDATE uid d m = False"
  "member_rls schema DELETE uid d m = False"
  unfolding member_rls_def rls_passes_def schema_member_policies
  by (simp_all add: member_policy_simps)

section \<open>Visibility of a story\<close>

text \<open>
  C1. For every authenticated caller \<open>C\<close> and every story \<open>R\<close>, the \<^verbatim>\<open>SELECT\<close> policy of
  \<^verbatim>\<open>stories\<close> under the schema in force lets \<open>C\<close> see \<open>R\<close> exactly when \<open>R\<close> is public
  or \<^verbatim>\<open>story_members\<close> holds a row for \<open>R\<close> and \<open>C\<close>, of whatever role.
\<close>

theorem view_decision:
  "canView schema C d R \<longleftrightarrow>
     is_public R \<or> (\<exists>m \<in> set (story_members d). story_id m = s_id R \<and> user_id m = C)"
  by (simp add: canView_def story_rls_schema exists_membership_def list_ex_iff)

text \<open>
  User \<open>2\<close>, no member of the private story, is denied; the same user is allowed once the
  story is public, and the owner is allowed.
\<close>

theorem view_decision_witness:
  "\<not> canView schema 2 created_db trip \<and> canView schema 2 created_db (trip\<lparr>is_public := True\<rparr>)
   \<and> canView schema 1 created_db trip"
  using view_decision [of 2 created_db trip]
    view_decision [of 2 created_db "trip\<lparr>is_public := True\<rparr>"]
    view_decision [of 1 created_db trip]
  by (simp add: created_db_def trip_def)

section \<open>The statements under the schema in force\<close>

lemma owner_is_member:
  "exists_owner_membership ms sid uid \<Longrightarrow> exists_membership ms sid uid"
  by (auto simp: exists_owner_membership_def exists_membership_def list_ex_iff)

lemma story_targeted_schema:
  "story_targeted schema UPDATE uid d X = (\<lambda>s. s_id s = X \<and> is_story_owner d X uid)"
  "story_targeted schema DELETE uid d X = (\<lambda>s. s_id s = X \<and> is_story_owner d X uid)"
  using owner_is_member [of "story_members d" X uid]
  by (auto simp: story_targeted_def story_rls_schema is_story_owner_def fun_eq_iff)

lemma s_id_apply_patch: "s_id (apply_patch p s) = s_id s"
  by (simp add: apply_patch_def)

lemma insert_story_schema:
  "insert_story schema returning uid d NEW =
     (if uid \<noteq> created_by NEW then Inl Forbidden
      else if returning \<and>
              \<not> (is_public NEW \<or> exists_membership (story_members d) (s_id NEW) uid)
           then Inl Forbidden
      else if list_ex (\<lambda>s. s_id s = s_id NEW) (stories d) then Inl Conflict
      else handle_new_story_owner_membership (d\<lparr>stories := stories d @ [NEW]\<rparr>) NEW)"
  by (simp add: insert_story_def story_rls_schema schema_story_insert_triggers
      split: sum.splits)


lemma handle_new_story_owner_membership_after_insert:
  "handle_new_story_owner_membership (d\<lparr>stories := stories d @ [NEW]\<rparr>) NEW =
     Inr (if exists_membership (story_members d) (s_id NEW) (created_by NEW)
          then d\<lparr>stories := stories d @ [NEW]\<rparr>
          else \<lparr>stories = stories d @ [NEW],
                story_members = story_members d @
                  [\<lparr>story_id = s_id NEW, user_id = created_by NEW, role = Owner\<rparr>]\<rparr>)"
  by (simp add: handle_new_story_owner_membership_def
      insert_story_member_on_conflict_do_nothing_def insert_story_member_def)

lemma update_story_schema:
  "update_story schema uid d X p =
     Inr (length (filter (\<lambda>s. s_id s = X \<and> is_story_owner d X uid) (stories d)),
          d\<lparr>stories := map (\<lambda>s. if s_id s = X \<and> is_story_owner d X uid
                                 then apply_patch p s else s) (stories d)\<rparr>)"
proof -
  have "\<not> list_ex (\<lambda>s. story_targeted schema UPDATE uid d X s \<and>
                       \<not> (story_rls schema SELECT uid d (apply_patch p s) \<and>
                          story_rls schema UPDATE uid d (apply_patch p s))) (stories d)"
    using owner_is_member [of "story_members d" X uid]
    by (auto simp: list_ex_iff story_targeted_schema story_rls_schema s_id_apply_patch
        is_story_owner_def)
  then show ?thesis
    by (simp add: update_story_def story_targeted_schema)
qed

lemma delete_member_schema: "delete_member schema uid d R U = (0, d)"
  by (simp add: delete_member_def member_targeted_def member_rls_schema)

lemma member_rls_schema_20260119200546:
  "member_rls schema_20260119200546 INSERT uid d m =
     ((user_id m = uid \<and> role m = Owner \<and> is_story_creator d (story_id m) uid)
      \<or> is_story_owner d (story_id m) uid)"
  "member_rls schema_20260119200546 DELETE uid d m = is_story_owner d (story_id m) uid"
  unfolding member_rls_def rls_passes_def schema_20260119200546_member_policies
  by (simp_all add: member_policy_simps)

section \<open>Update and delete of a story\<close>

text \<open>
  C5. For every caller \<open>C\<close> and story \<open>R\<close>, the \<^verbatim>\<open>UPDATE\<close> decision and the \<^verbatim>\<open>DELETE\<close>
  decision on \<^verbatim>\<open>stories\<close> are each the conjunction of the permissive base policy (\<open>R\<close> is
  public or \<open>C\<close> has some membership on \<open>R\<close>) with the restrictive policy (\<open>C\<close> has an
  owner membership on \<open>R\<close>), and that conjunction equals the single predicate "there is a
  membership row \<open>(R, C, owner)\<close>".
\<close>

theorem mutate_decision:
  "story_rls schema UPDATE C d R =
     (qual members_can_target_their_stories_base C d (members_seen schema C d) R \<and>
      qual only_owners_can_update_stories C d (members_seen schema C d) R)
   \<and> story_rls schema DELETE C d R =
     (qual members_can_target_their_stories_for_delete_base C d (members_seen schema C d) R \<and>
      qual only_owners_can_delete_stories C d (members_seen schema C d) R)
   \<and> qual members_can_target_their_stories_base C d (members_seen schema C d) R =
       (is_public R \<or> exists_membership (story_members d) (s_id R) C)
   \<and> qual members_can_target_their_stories_for_delete_base C d (members_seen schema C d) R =
       (is_public R \<or> exists_membership (story_members d) (s_id R) C)
   \<and> qual only_owners_can_update_stories C d (members_seen schema C d) R =
       exists_owner_membership (story_members d) (s_id R) C
   \<and> qual only_owners_can_delete_stories C d (members_seen schema C d) R =
       exists_owner_membership (story_members d) (s_id R) C
   \<and> story_rls schema UPDATE C d R = exists_owner_membership (story_members d) (s_id R) C
   \<and> story_rls schema DELETE C d R = exists_owner_membership (story_members d) (s_id R) C"
proof -
  have own_is_member:
    "exists_owner_membership (story_members d) (s_id R) C \<Longrightarrow>
       exists_membership (story_members d) (s_id R) C"
    by (auto simp: exists_owner_membership_def exists_membership_def list_ex_iff)
  show ?thesis
    unfolding story_rls_schema
    using own_is_member
    by (auto simp: story_policy_simps members_seen_schema id_in_own_story_ids_iff
        exists_membership_own exists_owner_membership_own is_story_owner_def)
qed

theorem mutate_decision_witness:
  "story_rls schema UPDATE 1 trip_db trip \<and> \<not> story_rls schema UPDATE 2 trip_db trip
   \<and> \<not> story_rls schema DELETE 3 trip_db (trip\<lparr>is_public := True\<rparr>)"
proof -
  have "story_rls schema UPDATE 1 trip_db trip =
          exists_owner_membership (story_members trip_db) (s_id trip) 1"
    using mutate_decision [of 1 trip_db trip] by blast
  moreover have "story_rls schema UPDATE 2 trip_db trip =
          exists_owner_membership (story_members trip_db) (s_id trip) 2"
    using mutate_decision [of 2 trip_db trip] by blast
  moreover have "story_rls schema DELETE 3 trip_db (trip\<lparr>is_public := True\<rparr>) =
          exists_owner_membership (story_members trip_db) (s_id (trip\<lparr>is_public := True\<rparr>)) 3"
    using mutate_decision [of 3 trip_db "trip\<lparr>is_public := True\<rparr>"] by blast
  ultimately show ?thesis
    by (simp add: trip_db_def trip_def exists_owner_membership_def)
qed

section \<open>Adding a member\<close>

text \<open>
  The claim C2 reads: inserting a membership row \<open>(R, U, r)\<close> as \<open>C\<close> is allowed exactly
  when \<open>U = C\<close>, \<open>r\<close> is owner and \<open>C\<close> is the recorded creator of \<open>R\<close>, or \<open>C\<close> already
  owns \<open>R\<close>. That was the policy of the second migration; the third drops it and creates
  the creator's case alone. Under the schema in force the owner of the example story may
  not add user \<open>2\<close> as a member.
\<close>

theorem add_member_counterexample:
  "\<not> (member_rls schema INSERT 1 created_db \<lparr>story_id = 1, user_id = 2, role = Member\<rparr> \<longleftrightarrow>
       (user_id \<lparr>story_id = 1, user_id = 2, role = Member\<rparr> = 1
          \<and> role \<lparr>story_id = 1, user_id = 2, role = Member\<rparr> = Owner
          \<and> is_story_creator created_db 1 1)
        \<or> is_story_owner created_db 1 1)"
  by (simp add: member_rls_schema created_db_def is_story_owner_def exists_owner_membership_def)

text \<open>
  C2, as the schema in force has it. For every caller \<open>C\<close> and row \<open>(R, U, r)\<close>, the
  \<^verbatim>\<open>INSERT\<close> policies of \<^verbatim>\<open>story_members\<close> admit the row exactly when \<open>U = C\<close>, \<open>r\<close> is
  owner and \<open>C\<close> is the recorded creator of \<open>R\<close>.
\<close>

theorem add_member_decision:
  "member_rls schema INSERT C d m \<longleftrightarrow>
     user_id m = C \<and> role m = Owner \<and> is_story_creator d (story_id m) C"
  by (simp add: member_rls_schema)

text \<open>The creator's own owner row is admitted; a member row for user \<open>2\<close> is refused.\<close>

theorem add_member_decision_witness:
  "member_rls schema INSERT 1 created_db \<lparr>story_id = 1, user_id = 1, role = Owner\<rparr>
   \<and> \<not> member_rls schema INSERT 1 created_db \<lparr>story_id = 1, user_id = 2, role = Member\<rparr>
   \<and> exec schema 1 created_db (InsertMember \<lparr>story_id = 1, user_id = 2, role = Member\<rparr>)
       = (Failed Forbidden, created_db)"
  using add_member_decision [of 1 created_db "\<lparr>story_id = 1, user_id = 1, role = Owner\<rparr>"]
    add_member_decision [of 1 created_db "\<lparr>story_id = 1, user_id = 2, role = Member\<rparr>"]
  by (simp add: created_db_def trip_def is_story_creator_def insert_member_def)

section \<open>Removing a member\<close>

text \<open>
  The claim C6 reads: removing the row \<open>(R, U)\<close> as \<open>C\<close> is allowed exactly when \<open>C\<close> owns
  \<open>R\<close>. The third migration drops the owner's \<^verbatim>\<open>DELETE\<close> policy of the second and creates
  none, so under the schema in force the owner of the example story cannot remove a row
  of it.
\<close>

theorem remove_member_counterexample:
  "\<not> (member_targeted schema 1 created_db 1 1 \<lparr>story_id = 1, user_id = 1, role = Owner\<rparr>
        \<longleftrightarrow> is_story_owner created_db 1 1)"
  by (simp add: member_targeted_def member_rls_schema created_db_def is_story_owner_def
      exists_owner_membership_def)

text \<open>
  C6, as the schema in force has it. For every caller \<open>C\<close>, story \<open>R\<close> and user \<open>U\<close>, no
  row of \<^verbatim>\<open>story_members\<close> is within reach of a \<^verbatim>\<open>DELETE\<close> of \<open>C\<close>: the statement affects
  no row, leaves the database as it was and raises no error, whether the row \<open>(R, U)\<close>
  exists or not.
\<close>

theorem remove_member_never:
  "\<not> member_targeted schema C d R U m \<and> exec schema C d (DeleteMember R U) = (Affected 0, d)"
  by (simp add: member_targeted_def member_rls_schema delete_member_def)

text \<open>The owner of the example story, on the own row and on a row that does not exist.\<close>

theorem remove_member_never_witness:
  "exec schema 1 created_db (DeleteMember 1 1) = (Affected 0, created_db)
   \<and> exec schema 1 created_db (DeleteMember 1 7) = (Affected 0, created_db)
   \<and> is_story_owner created_db 1 1"
  using remove_member_never [of 1 created_db 1 1] remove_member_never [of 1 created_db 1 7]
  by (simp add: created_db_def is_story_owner_def exists_owner_membership_def)

section \<open>Constraints and ownership in every reachable database\<close>

lemma consistent_iff:
  "consistent d \<longleftrightarrow>
     (\<forall>m \<in> set (story_members d). \<exists>s \<in> set (stories d). s_id s = story_id m) \<and>
     distinct (map (\<lambda>m. (story_id m, user_id m)) (story_members d)) \<and>
     (\<forall>s \<in> set (stories d). \<exists>m \<in> set (story_members d). story_id m = s_id s \<and> role m = Owner)"
  by (simp add: consistent_def memberships_reference_stories_def unique_memberships_def
      every_story_has_owner_def has_owner_def list_all_iff list_ex_iff)

lemma consistent_empty: "consistent empty_db"
  by (simp add: consistent_iff empty_db_def)

lemma insert_story_result:
  assumes "consistent d" and "insert_story schema returning uid d NEW = Inr d'"
  shows "uid = created_by NEW"
    and "\<not> list_ex (\<lambda>s. s_id s = s_id NEW) (stories d)"
    and "\<not> exists_membership (story_members d) (s_id NEW) u"
    and "returning \<Longrightarrow> is_public NEW"
    and "d' = \<lparr>stories = stories d @ [NEW],
               story_members = story_members d @
                 [\<lparr>story_id = s_id NEW, user_id = created_by NEW, role = Owner\<rparr>]\<rparr>"
proof -
  from assms(2) show u: "uid = created_by NEW"
    and fresh: "\<not> list_ex (\<lambda>s. s_id s = s_id NEW) (stories d)"
    by (auto simp: insert_story_schema split: if_splits)
  from fresh assms(1) have none: "\<not> exists_membership (story_members d) (s_id NEW) v" for v
    by (fastforce simp: consistent_iff exists_membership_def list_ex_iff)
  then show "\<not> exists_membership (story_members d) (s_id NEW) u" .
  from assms(2) none show "returning \<Longrightarrow> is_public NEW"
    by (auto simp: insert_story_schema split: if_splits)
  from assms(2) u fresh
  have "handle_new_story_owner_membership (d\<lparr>stories := stories d @ [NEW]\<rparr>) NEW = Inr d'"
    by (auto simp: insert_story_schema split: if_splits)
  with none show "d' = \<lparr>stories = stories d @ [NEW],
               story_members = story_members d @
                 [\<lparr>story_id = s_id NEW, user_id = created_by NEW, role = Owner\<rparr>]\<rparr>"
    by (simp add: handle_new_story_owner_membership_after_insert)
qed

lemma consistent_insert_story:
  assumes "consistent d" and "insert_story schema returning uid d NEW = Inr d'"
  shows "consistent d'"
proof -
  note r = insert_story_result [OF assms]
  from r(3) [of "created_by NEW"]
  have "(s_id NEW, created_by NEW) \<notin> (\<lambda>m. (story_id m, user_id m)) ` set (story_members d)"
    by (auto simp: exists_membership_def list_ex_iff)
  with assms(1) show ?thesis
    unfolding r(5) consistent_iff by auto
qed

lemma consistent_map_stories:
  assumes "consistent d" and "\<And>s. s_id (f s) = s_id s"
  shows "consistent (d\<lparr>stories := map f (stories d)\<rparr>)"
proof -
  have fk: "\<exists>s \<in> set (stories d). s_id (f s) = story_id m" if "m \<in> set (story_members d)" for m
    using assms that by (auto simp: consistent_iff)
  have own: "\<exists>m \<in> set (story_members d). story_id m = s_id (f s) \<and> role m = Owner"
    if "s \<in> set (stories d)" for s
    using assms that by (auto simp: consistent_iff)
  from assms(1) fk own show ?thesis
    by (simp add: consistent_iff)
qed

lemma consistent_update_story:
  assumes "consistent d" and "update_story schema uid d X p = Inr (n, d')"
  shows "consistent d'"
proof -
  from assms(2) have eq: "d' = d\<lparr>stories := map (\<lambda>s. if s_id s = X \<and> is_story_owner d X uid
                                 then apply_patch p s else s) (stories d)\<rparr>"
    by (simp add: update_story_schema)
  show ?thesis
    unfolding eq using assms(1)
    by (rule consistent_map_stories) (simp add: s_id_apply_patch)
qed

lemma consistent_drop_ids:
  assumes "consistent d"
  shows "consistent \<lparr>stories = filter (\<lambda>s. s_id s \<notin> D) (stories d),
                      story_members = filter (\<lambda>m. story_id m \<notin> D) (story_members d)\<rparr>"
    (is "consistent ?d'")
  unfolding consistent_iff
proof (intro conjI ballI)
  fix m assume "m \<in> set (story_members ?d')"
  then have m: "m \<in> set (story_members d)" "story_id m \<notin> D" by simp_all
  with assms obtain s where s: "s \<in> set (stories d)" "s_id s = story_id m"
    unfolding consistent_iff by blast
  with m(2) have "s \<in> set (stories ?d')" by simp
  with s(2) show "\<exists>s \<in> set (stories ?d'). s_id s = story_id m" by (rule_tac bexI)
next
  from assms show "distinct (map (\<lambda>m. (story_id m, user_id m)) (story_members ?d'))"
    by (simp add: consistent_iff distinct_map_filter)
next
  fix s assume "s \<in> set (stories ?d')"
  then have s: "s \<in> set (stories d)" "s_id s \<notin> D" by simp_all
  with assms obtain m where m: "m \<in> set (story_members d)" "story_id m = s_id s" "role m = Owner"
    unfolding consistent_iff by blast
  with s(2) have "m \<in> set (story_members ?d')" by simp
  with m(2,3) show "\<exists>m \<in> set (story_members ?d'). story_id m = s_id s \<and> role m = Owner"
    by (intro bexI conjI)
qed

lemma delete_story_schema:
  "delete_story schema uid d X =
     (length (filter (\<lambda>s. s_id s = X \<and> is_story_owner d X uid) (stories d)),
      \<lparr>stories = filter (\<lambda>s. s_id s \<notin>
           s_id ` {s \<in> set (stories d). s_id s = X \<and> is_story_owner d X uid}) (stories d),
       story_members = filter (\<lambda>m. story_id m \<notin>
           s_id ` {s \<in> set (stories d). s_id s = X \<and> is_story_owner d X uid}) (story_members d)\<rparr>)"
proof -
  have "filter (\<lambda>s. \<not> (s_id s = X \<and> is_story_owner d X uid)) (stories d) =
        filter (\<lambda>s. s_id s \<notin>
           s_id ` {s \<in> set (stories d). s_id s = X \<and> is_story_owner d X uid}) (stories d)"
    by (rule filter_cong) auto
  then show ?thesis
    by (simp add: delete_story_def Let_def story_targeted_schema)
qed

lemma consistent_delete_story:
  assumes "consistent d" and "delete_story schema uid d X = (n, d')"
  shows "consistent d'"
  using assms(2) consistent_drop_ids [OF assms(1)]
  by (auto simp: delete_story_schema)

lemma consistent_insert_member:
  assumes "consistent d" and "insert_member schema uid d m = Inr d'"
  shows "consistent d'"
proof -
  from assms(2) have new: "\<not> exists_membership (story_members d) (story_id m) (user_id m)"
    and fk: "list_ex (\<lambda>s. s_id s = story_id m) (stories d)"
    and eq: "d' = d\<lparr>story_members := story_members d @ [m]\<rparr>"
    by (auto simp: insert_member_def insert_story_member_def split: if_splits)
  from new have "(story_id m, user_id m) \<notin> (\<lambda>m. (story_id m, user_id m)) ` set (story_members d)"
    by (auto simp: exists_membership_def list_ex_iff)
  with assms(1) fk show ?thesis
    unfolding eq consistent_iff by (auto simp: list_ex_iff)
qed

lemma consistent_exec:
  assumes "consistent d" and "exec schema uid d st = (out, d')"
  shows "consistent d'"
proof (cases st)
  case (SelectStory X)
  with assms show ?thesis by simp
next
  case (InsertStory NEW)
  with assms show ?thesis
    by (auto split: sum.splits dest: consistent_insert_story)
next
  case (InsertStoryReturning NEW)
  with assms show ?thesis
    by (auto split: sum.splits dest: consistent_insert_story)
next
  case (UpdateStory X p)
  with assms show ?thesis
    by (auto split: sum.splits prod.splits dest: consistent_update_story)
next
  case (DeleteStory X)
  with assms show ?thesis
    by (auto split: prod.splits dest: consistent_delete_story)
next
  case (InsertMember m)
  with assms show ?thesis
    by (auto split: sum.splits dest: consistent_insert_member)
next
  case (DeleteMember R U)
  with assms show ?thesis
    by (simp add: delete_member_schema)
qed

lemma reachable_consistent: "reachable d \<Longrightarrow> consistent d"
  by (induction rule: reachable.induct) (auto intro: consistent_empty consistent_exec)








lemma exec_insert_trip: "exec schema 1 empty_db (InsertStory trip) = (Inserted, created_db)"
  by (simp add: insert_story_schema handle_new_story_owner_membership_def
      insert_story_member_on_conflict_do_nothing_def insert_story_member_def
      empty_db_def created_db_def trip_def exists_membership_def)

lemma reachable_created_db: "reachable created_db"
  using reachable_exec [OF reachable_empty exec_insert_trip] .

text \<open>
  C3. In every database that the statements of callers (insert, update and delete of a
  story, insert and delete of a membership, under the schema in force) produce from the
  empty tables, every story has at least one membership row with role owner.
\<close>

theorem every_story_owned: "reachable d \<Longrightarrow> every_story_has_owner d"
  using reachable_consistent [of d] by (simp add: consistent_def)

theorem every_story_owned_witness:
  "reachable created_db \<and> every_story_has_owner created_db \<and> stories created_db = [trip]"
  using every_story_owned [OF reachable_created_db] reachable_created_db
  by (simp add: created_db_def)

text \<open>
  C4. In every reachable database there is at most one membership row for a pair
  \<open>(story_id, user_id)\<close>; an \<^verbatim>\<open>INSERT\<close> into \<^verbatim>\<open>story_members\<close> for a pair that is already
  there fails with a unique violation and creates nothing, and so does the caller's
  statement whenever the policies let it through to the table.
\<close>

theorem membership_unique:
  "(reachable d \<longrightarrow> unique_memberships d) \<and>
   (exists_membership (story_members d') (story_id m) (user_id m) \<longrightarrow>
      insert_story_member d' m = Inl Conflict \<and>
      (member_rls schema INSERT C d' m \<longrightarrow>
         exec schema C d' (InsertMember m) = (Failed Conflict, d')))"
  using reachable_consistent [of d]
  by (simp add: consistent_def insert_story_member_def insert_member_def)

theorem membership_unique_witness:
  "reachable created_db \<and> unique_memberships created_db \<and>
   exists_membership (story_members created_db) 1 1 \<and>
   insert_story_member created_db \<lparr>story_id = 1, user_id = 1, role = Member\<rparr> = Inl Conflict \<and>
   member_rls schema INSERT 1 created_db \<lparr>story_id = 1, user_id = 1, role = Owner\<rparr> \<and>
   exec schema 1 created_db (InsertMember \<lparr>story_id = 1, user_id = 1, role = Owner\<rparr>)
     = (Failed Conflict, created_db)"
proof -
  have ex: "exists_membership (story_members created_db) 1 1"
    by (simp add: created_db_def exists_membership_def)
  have pol: "member_rls schema INSERT 1 created_db \<lparr>story_id = 1, user_id = 1, role = Owner\<rparr>"
    by (simp add: member_rls_schema created_db_def trip_def is_story_creator_def)
  from membership_unique [of created_db created_db "\<lparr>story_id = 1, user_id = 1, role = Member\<rparr>" 1]
    membership_unique [of created_db created_db "\<lparr>story_id = 1, user_id = 1, role = Owner\<rparr>" 1]
    reachable_created_db ex pol
  show ?thesis by simp
qed

section \<open>Creation of a story\<close>

lemma exec_insert_album:
  "exec schema 1 empty_db (InsertStoryReturning album) = (Returned [album], album_db)"
  by (simp add: insert_story_schema handle_new_story_owner_membership_def
      insert_story_member_on_conflict_do_nothing_def insert_story_member_def
      empty_db_def album_db_def album_def exists_membership_def)

lemma reachable_album_db: "reachable album_db"
  using reachable_exec [OF reachable_empty exec_insert_album] .



text \<open>
  A story with a fresh key that is to be returned and is private is refused: its creator
  has no membership yet when the \<^verbatim>\<open>SELECT\<close> policy is asked about the new row.
\<close>

lemma insert_private_story_returning_refused:
  assumes "reachable d" and "created_by NEW = U"
    and "\<not> list_ex (\<lambda>s. s_id s = s_id NEW) (stories d)" and "\<not> is_public NEW"
  shows "exec schema U d (InsertStoryReturning NEW) = (Failed Forbidden, d)"
proof -
  from assms(3) reachable_consistent [OF assms(1)]
  have "\<not> exists_membership (story_members d) (s_id NEW) U"
    by (fastforce simp: consistent_iff exists_membership_def list_ex_iff)
  with assms(2,4) show ?thesis
    by (simp add: insert_story_schema)
qed




section \<open>The double insert of the owner row\<close>

text \<open>
  The trigger function on a story just inserted, run twice: no error either time, the
  second run leaves the database of the first as it is, and exactly one row for the story
  and its creator is there, with role owner. (The database does not run it twice for one
  story: a second insert of the key fails on the primary key.)
\<close>

lemma handle_new_story_owner_membership_twice:
  assumes "list_ex (\<lambda>s. s_id s = s_id NEW) (stories d)"
    and "\<not> exists_membership (story_members d) (s_id NEW) (created_by NEW)"
  shows "\<exists>d1. handle_new_story_owner_membership d NEW = Inr d1 \<and>
              handle_new_story_owner_membership d1 NEW = Inr d1 \<and>
              filter (\<lambda>m. story_id m = s_id NEW \<and> user_id m = created_by NEW) (story_members d1)
                = [\<lparr>story_id = s_id NEW, user_id = created_by NEW, role = Owner\<rparr>]"
proof -
  from assms(2) have "filter (\<lambda>m. story_id m = s_id NEW \<and> user_id m = created_by NEW)
                        (story_members d) = []"
    by (auto simp: exists_membership_def list_ex_iff filter_empty_conv)
  with assms show ?thesis
    by (simp add: handle_new_story_owner_membership_def
        insert_story_member_on_conflict_do_nothing_def insert_story_member_def
        exists_membership_def)
qed

text \<open>
  The second establishment that does happen is the insert that \<^verbatim>\<open>handleSubmit\<close> sends
  after the story: a plain \<^verbatim>\<open>INSERT\<close> of the caller, which the policy of the creator
  admits and which meets the row of the trigger. In a reachable database the form never
  ends in \<^verbatim>\<open>Story created!\<close>: when the story is stored, the outcome is the unique
  violation.
\<close>

lemma handleSubmit_schema:
  assumes "reachable d"
  shows "handleSubmit schema U d NEW =
           (case insert_story schema True U d (NEW\<lparr>created_by := U\<rparr>) of
              Inl storyError \<Rightarrow> (Failed storyError, d)
            | Inr d' \<Rightarrow> (Failed Conflict, d'))"
proof (cases "insert_story schema True U d (NEW\<lparr>created_by := U\<rparr>)")
  case (Inl e)
  then show ?thesis by (simp add: handleSubmit_def)
next
  case (Inr d')
  note eq = insert_story_result(5) [OF reachable_consistent [OF assms] Inr]
  have "insert_member schema U d' \<lparr>story_id = s_id NEW, user_id = U, role = Owner\<rparr>
          = Inl Conflict"
    unfolding eq
    by (simp add: insert_member_def member_rls_schema insert_story_member_def
        is_story_creator_def exists_membership_def)
  with Inr show ?thesis by (simp add: handleSubmit_def)
qed

lemma handleSubmit_never_succeeds:
  "reachable d \<Longrightarrow> fst (handleSubmit schema U d NEW) \<noteq> Inserted"
  by (simp add: handleSubmit_schema split: sum.splits)

text \<open>
  C8. The claim reads: establishing the ownership of a story a second time leaves exactly
  one owner row and shows no error to the caller, the unique violation being taken as
  success. User \<open>1\<close> submits the form with the public story on the empty database: the
  story and its one owner row are stored, and the form ends in the unique violation of its
  own insert of that row, which is shown as \<^verbatim>\<open>Error creating story\<close>. The trigger
  function on the same database would have taken the conflict as success.
\<close>

theorem handleSubmit_double_fire:
  "handleSubmit schema 1 empty_db album = (Failed Conflict, album_db)
   \<and> filter (\<lambda>m. story_id m = 2 \<and> user_id m = 1) (story_members album_db)
       = [\<lparr>story_id = 2, user_id = 1, role = Owner\<rparr>]
   \<and> handle_new_story_owner_membership album_db album = Inr album_db"
proof -
  have "insert_story schema True 1 empty_db (album\<lparr>created_by := 1\<rparr>) = Inr album_db"
    by (simp add: insert_story_schema handle_new_story_owner_membership_def
        insert_story_member_on_conflict_do_nothing_def insert_story_member_def
        empty_db_def album_db_def album_def exists_membership_def)
  then have "handleSubmit schema 1 empty_db album = (Failed Conflict, album_db)"
    by (simp add: handleSubmit_schema [OF reachable_empty])
  moreover have "handle_new_story_owner_membership album_db album = Inr album_db"
    by (simp add: handle_new_story_owner_membership_def
        insert_story_member_on_conflict_do_nothing_def insert_story_member_def
        album_db_def album_def exists_membership_def)
  ultimately show ?thesis
    by (simp add: album_db_def)
qed

section \<open>A story the caller cannot see\<close>








text \<open>
  The security definer helpers, which the second migration grants to every authenticated
  caller, answer about a story the caller may not see as well.
\<close>

lemma helpers_answer_about_hidden_story:
  "is_story_creator created_db 1 1 \<and> \<not> is_story_creator (without_story 1 created_db) 1 1
   \<and> is_story_owner created_db 1 1 \<and> \<not> is_story_owner (without_story 1 created_db) 1 1"
  by (simp add: is_story_creator_def is_story_owner_def exists_owner_membership_def
      without_story_def created_db_def trip_def)



section \<open>The member count of the dashboard\<close>

lemma fold_count_member:
  "fold count_member ms mc k =
     (if filter (\<lambda>m. story_id m = k) ms = [] then mc k
      else Some ((case mc k of None \<Rightarrow> 0 | Some n \<Rightarrow> n)
                 + length (filter (\<lambda>m. story_id m = k) ms)))"
  by (induction ms arbitrary: mc) (auto simp: count_member_def)

lemma member_count_of_fold:
  "member_count_of (fold count_member ms Map.empty) k =
     (if filter (\<lambda>m. story_id m = k) ms = [] then 1
      else length (filter (\<lambda>m. story_id m = k) ms))"
  by (simp add: member_count_of_def fold_count_member)

lemma distinct_key_at_most_one:
  "distinct (map f xs) \<Longrightarrow> length (filter (\<lambda>x. f x = y) xs) \<le> 1"
proof (induction xs)
  case Nil
  then show ?case by simp
next
  case (Cons x xs)
  show ?case
  proof (cases "f x = y")
    case True
    with Cons.prems have "y \<notin> f ` set xs" by simp
    then have "filter (\<lambda>x. f x = y) xs = []"
      unfolding filter_empty_conv by (metis imageI)
    with True show ?thesis by simp
  next
    case False
    with Cons show ?thesis by simp
  qed
qed

lemma own_rows_of_story:
  assumes "unique_memberships d"
  shows "length (filter (\<lambda>m. story_id m = k) (filter (\<lambda>m. user_id m = C) (story_members d))) \<le> 1"
proof -
  from assms
  have "length (filter (\<lambda>m. (story_id m, user_id m) = (k, C)) (story_members d)) \<le> 1"
    unfolding unique_memberships_def by (rule distinct_key_at_most_one)
  then show ?thesis
    by (simp add: conj_commute)
qed

lemma fetchStories_schema:
  "fetchStories schema C d =
     map (\<lambda>story. (story, member_count_of
             (fold count_member (filter (\<lambda>m. user_id m = C) (story_members d)) Map.empty)
             (s_id story)))
       (rev (sort_key created_at
          (filter (\<lambda>s. exists_membership (story_members d) (s_id s) C) (stories d))))"
    (is "_ = map ?g (rev (sort_key created_at ?mine))")
proof -
  let ?own = "filter (\<lambda>m. user_id m = C) (story_members d)"
  have md: "filter (\<lambda>m. user_id m = C) ?own = ?own"
    by simp
  have ids: "s \<in> set (map story_id ?own) \<longleftrightarrow> exists_membership (story_members d) s C" for s
    by (auto simp: exists_membership_def list_ex_iff)
  have all: "filter (\<lambda>m. story_id m \<in> set (map story_id ?own)) ?own = ?own"
    by (rule filter_True) simp
  have vis: "filter (\<lambda>s. s_id s \<in> set (map story_id ?own)) (select_stories schema C d) = ?mine"
    unfolding ids select_stories_def
    by (auto simp: canView_def story_rls_schema intro!: filter_cong)
  have eq: "fetchStories schema C d =
              (if ?own = [] then [] else map ?g (rev (sort_key created_at ?mine)))"
    unfolding fetchStories_def members_seen_schema Let_def md all vis by (rule refl)
  show ?thesis
  proof (cases "?own = []")
    case True
    then have "\<not> exists_membership (story_members d) s C" for s
      by (auto simp: exists_membership_def list_ex_iff filter_empty_conv)
    then have "?mine = []" by simp
    with True eq show ?thesis by simp
  next
    case False
    with eq show ?thesis by simp
  qed
qed

text \<open>
  C10. For every caller \<open>C\<close> and every database that satisfies \<^verbatim>\<open>UNIQUE(story_id, user_id)\<close>:
  every story \<open>C\<close> belongs to is listed by \<^verbatim>\<open>fetchStories\<close> with \<^verbatim>\<open>member_count\<close> 1, and
  the count of every listed story is the number of membership rows of that story that
  \<open>C\<close> can see, which is 1, however many members the story has.
\<close>

theorem dashboard_member_count:
  assumes "unique_memberships d"
  shows "(s \<in> set (stories d) \<and> exists_membership (story_members d) (s_id s) C \<longrightarrow>
            (s, 1) \<in> set (fetchStories schema C d))
         \<and> ((s, n) \<in> set (fetchStories schema C d) \<longrightarrow>
            n = length (filter (\<lambda>m. story_id m = s_id s) (members_seen schema C d)) \<and> n = 1)"
proof -
  let ?own = "filter (\<lambda>m. user_id m = C) (story_members d)"
  have one: "length (filter (\<lambda>m. story_id m = s_id s) ?own) = 1
             \<and> member_count_of (fold count_member ?own Map.empty) (s_id s) = 1"
    if "exists_membership (story_members d) (s_id s) C"
  proof -
    from that have "filter (\<lambda>m. story_id m = s_id s) ?own \<noteq> []"
      by (auto simp: exists_membership_def list_ex_iff filter_empty_conv)
    moreover from own_rows_of_story [OF assms, of "s_id s" C]
    have "length (filter (\<lambda>m. story_id m = s_id s) ?own) \<le> 1" .
    ultimately show ?thesis
      by (cases "filter (\<lambda>m. story_id m = s_id s) ?own") (simp_all add: member_count_of_fold)
  qed
  then show ?thesis
    by (auto simp: fetchStories_schema members_seen_schema)
qed

text \<open>The example story has two members; each of them is shown the count 1.\<close>

theorem dashboard_member_count_witness:
  "unique_memberships trip_db \<and> length (story_members trip_db) = 2 \<and>
   fetchStories schema 1 trip_db = [(trip, 1)] \<and> fetchStories schema 2 trip_db = [(trip, 1)]"
proof -
  have u: "unique_memberships trip_db"
    by (simp add: unique_memberships_def trip_db_def)
  have s: "trip \<in> set (stories trip_db)"
    "exists_membership (story_members trip_db) (s_id trip) 1"
    "exists_membership (story_members trip_db) (s_id trip) 2"
    by (simp_all add: trip_db_def trip_def exists_membership_def)
  have len: "length (fetchStories schema C trip_db) \<le> 1" for C
    by (simp add: fetchStories_schema trip_db_def)
  have single: "xs = [x]" if "x \<in> set xs" "length xs \<le> 1" for x :: "story \<times> nat" and xs
    using that by (cases xs) auto
  from dashboard_member_count [OF u, of trip 1] s
  have "(trip, 1) \<in> set (fetchStories schema 1 trip_db)" by blast
  then have f1: "fetchStories schema 1 trip_db = [(trip, 1)]"
    using len by (rule single)
  from dashboard_member_count [OF u, of trip 2] s
  have "(trip, 1) \<in> set (fetchStories schema 2 trip_db)" by blast
  then have f2: "fetchStories schema 2 trip_db = [(trip, 1)]"
    using len by (rule single)
  have "length (story_members trip_db) = 2"
    by (simp add: trip_db_def)
  with u f1 f2 show ?thesis by blast
qed

end
